theory Spec2Isabelle
  imports Main "HOL-Library.Sublist"
begin

section \<open>The NATS pub/sub command-line client (cmd/nats-basic/natsPubSub.go)\<close>

text \<open>
  The program parses four flags, validates them, opens one connection and either
  publishes one message or subscribes and waits for a signal. The model is a run of
  \<open>main\<close> on a command line, against an environment that fixes what every call on the
  client library and the operating system answers. A run yields the sequence of
  observable events (writes to the two standard streams and calls on the library) and
  the way the process ends.
\<close>

subsection \<open>Constants (lines 52-57)\<close>

definition modePub :: string where
  "modePub = ''pub''"

definition modeSub :: string where
  "modeSub = ''sub''"

definition APP :: string where
  "APP = ''NATS-BASIC''"

text \<open>\<open>nats.DefaultURL\<close>, with the value lines 37 and 65 give for it.\<close>

definition DefaultURL :: string where
  "DefaultURL = ''nats://127.0.0.1:4222''"

subsection \<open>Data\<close>

text \<open>The four flag variables of lines 62-65.\<close>

record flags =
  flag_mode :: string
  flag_subject :: string
  flag_msg :: string
  flag_url :: string

type_synonym err = string

datatype signal = SIGINT | SIGTERM

text \<open>
  What the collaborators answer during one run: the error (if any) of each library call,
  the messages (subject, data) the library hands to the callback, the signal that
  arrives (\<open>None\<close>: no signal ever arrives), and the scheduler's choices between the main
  goroutine and the goroutine that runs the callback (\<open>True\<close>: the main goroutine goes
  next).
\<close>

record env =
  connect_err :: "err option"
  publish_err :: "err option"
  flush_err :: "err option"
  subscribe_err :: "err option"
  inbound :: "(string \<times> string) list"
  schedule :: "bool list"
  signal_recv :: "signal option"
  drain_err :: "err option"
  unsubscribe_err :: "err option"

datatype stream = StdOut | StdErr

text \<open>
  The lines written to standard error: the three messages of \<open>flag.Parse\<close> for a command
  line it rejects, and the three validation messages of lines 71, 77 and 83.
\<close>

datatype diag =
    BadFlagSyntax string
  | FlagNotDefined string
  | FlagNeedsArgument string
  | FlagsRequired
  | BadMode string
  | MsgRequired

text \<open>The log lines, one constructor for each format string of the source.\<close>

datatype logmsg =
    Connecting string
  | FailedConnect string err
  | ConnectedOk
  | Publishing string
  | FailedPublish err
  | FailedFlush err
  | Published string string
  | Subscribing string
  | Received string string
  | FailedSubscribe err
  | UnsubscribeError err
  | GotSignal signal
  | DrainError err
  | Bye

datatype text_out =
    Diag diag
  | UsageText
  | LogLine string logmsg

datatype event =
    Write stream text_out
  | CallConnect string string "err option"
  | CallPublish string string "err option"
  | CallFlush "err option"
  | CallSubscribe string "err option"
  | CallNotify "signal list"
  | CallDrain "err option"
  | CallUnsubscribe "err option"
  | CallClose

text \<open>
  How a function ends: it returns to its caller, the process exits at once with a code
  (\<open>os.Exit\<close>, which runs no deferred function), or it blocks forever.
\<close>

datatype outcome = Returned | Exited int | Blocked

subsection \<open>flag.Parse (line 67)\<close>

text \<open>
  Line 67 calls \<open>flag.Parse()\<close> of the Go standard library on the default flag set, whose
  error handling is \<open>ExitOnError\<close>. The definitions follow the library's \<open>parseOne\<close> and
  \<open>Parse\<close> for the four string flags of lines 62-65: an argument that is not of the form
  \<open>-name\<close>, \<open>--name\<close>, \<open>-name=value\<close> ends the flags, as does \<open>--\<close>; a flag takes its value
  after \<open>=\<close> or from the next argument; \<open>-h\<close> and \<open>-help\<close> ask for the usage text; anything
  else is an error. The flag variables keep what was stored in them before the parse
  stopped.
\<close>

definition default_flags :: flags where
  "default_flags = \<lparr>flag_mode = [], flag_subject = [], flag_msg = [], flag_url = DefaultURL\<rparr>"

definition is_defined :: "string \<Rightarrow> bool" where
  "is_defined name \<longleftrightarrow> name = ''mode'' \<or> name = ''subject'' \<or> name = ''msg'' \<or> name = ''url''"

definition set_flag :: "string \<Rightarrow> string \<Rightarrow> flags \<Rightarrow> flags" where
  "set_flag name v f =
     (if name = ''mode'' then f\<lparr>flag_mode := v\<rparr>
      else if name = ''subject'' then f\<lparr>flag_subject := v\<rparr>
      else if name = ''msg'' then f\<lparr>flag_msg := v\<rparr>
      else if name = ''url'' then f\<lparr>flag_url := v\<rparr>
      else f)"

text \<open>The name and the value of \<open>name=value\<close>; the equals sign cannot be the first character.\<close>

definition split_eq :: "string \<Rightarrow> string \<times> string option" where
  "split_eq name =
     (case name of
        [] \<Rightarrow> ([], None)
      | c # cs \<Rightarrow>
          (if CHR ''='' \<in> set cs
           then (c # takeWhile (\<lambda>x. x \<noteq> CHR ''='') cs,
                 Some (tl (dropWhile (\<lambda>x. x \<noteq> CHR ''='') cs)))
           else (name, None)))"

text \<open>
  One step of the parse on the first argument \<open>s\<close> and the arguments \<open>rest\<close> after it: the
  flags are over, the step fails, help is asked for, or a flag was seen and stored (the
  boolean tells whether its value was the next argument).
\<close>

datatype parse_step = Stop | Fail diag | HelpAsked | Seen flags bool

definition parseOne :: "flags \<Rightarrow> string \<Rightarrow> string list \<Rightarrow> parse_step" where
  "parseOne f s rest =
     (if length s < 2 \<or> hd s \<noteq> CHR ''-'' then Stop
      else if s = ''--'' then Stop
      else
        (let name0 = drop (if s ! 1 = CHR ''-'' then 2 else 1) s in
         if name0 = [] \<or> hd name0 = CHR ''-'' \<or> hd name0 = CHR ''='' then Fail (BadFlagSyntax s)
         else
           (let name = fst (split_eq name0); v = snd (split_eq name0) in
            if \<not> is_defined name then
              (if name = ''help'' \<or> name = ''h'' then HelpAsked else Fail (FlagNotDefined name))
            else
              (case v of
                 Some x \<Rightarrow> Seen (set_flag name x f) False
               | None \<Rightarrow>
                   (case rest of
                      [] \<Rightarrow> Fail (FlagNeedsArgument name)
                    | x # rest' \<Rightarrow> Seen (set_flag name x f) True)))))"

datatype parse_status = ParseOk | ParseHelp | ParseFailed diag

fun parse_from :: "flags \<Rightarrow> string list \<Rightarrow> flags \<times> parse_status" where
  "parse_from f [] = (f, ParseOk)"
| "parse_from f (s # rest) =
     (case parseOne f s rest of
        Stop \<Rightarrow> (f, ParseOk)
      | Fail d \<Rightarrow> (f, ParseFailed d)
      | HelpAsked \<Rightarrow> (f, ParseHelp)
      | Seen f' False \<Rightarrow> parse_from f' rest
      | Seen f' True \<Rightarrow> parse_from f' (tl rest))"

definition Parse :: "string list \<Rightarrow> flags \<times> parse_status" where
  "Parse args = parse_from default_flags args"

subsection \<open>The logger (line 91)\<close>

record logger =
  log_out :: stream
  log_prefix :: string

definition new_logger :: "string \<Rightarrow> logger" where
  "new_logger m = \<lparr>log_out = StdOut, log_prefix = APP @ '' ['' @ m @ ''] ''\<rparr>"

definition Printf :: "logger \<Rightarrow> logmsg \<Rightarrow> event" where
  "Printf l m = Write (log_out l) (LogLine (log_prefix l) m)"

text \<open>\<open>l.Fatalf\<close> is \<open>l.Printf\<close> followed by \<open>os.Exit(1)\<close>.\<close>

definition Fatalf :: "logger \<Rightarrow> logmsg \<Rightarrow> event list \<times> outcome" where
  "Fatalf l m = ([Printf l m], Exited 1)"

text \<open>Sequencing: the events so far, then a continuation.\<close>

definition after :: "event list \<Rightarrow> event list \<times> outcome \<Rightarrow> event list \<times> outcome" where
  "after t k = (t @ fst k, snd k)"

subsection \<open>publish (lines 128-146)\<close>

definition publish :: "env \<Rightarrow> logger \<Rightarrow> string \<Rightarrow> string \<Rightarrow> event list \<times> outcome" where
  "publish e l subject msg =
     after [Printf l (Publishing subject), CallPublish subject msg (publish_err e)]
       (case publish_err e of
          Some er \<Rightarrow> Fatalf l (FailedPublish er)
        | None \<Rightarrow>
            after [CallFlush (flush_err e)]
              (case flush_err e of
                 Some er \<Rightarrow> Fatalf l (FailedFlush er)
               | None \<Rightarrow> ([Printf l (Published subject msg)], Returned)))"

subsection \<open>subscribe (lines 165-201)\<close>

text \<open>The callback of lines 170-172, run once for each message handed to it.\<close>

definition callback :: "logger \<Rightarrow> string \<times> string \<Rightarrow> event" where
  "callback l m = Printf l (Received (fst m) (snd m))"

text \<open>The deferred function of lines 178-182.\<close>

definition deferred_unsubscribe :: "env \<Rightarrow> logger \<Rightarrow> event list" where
  "deferred_unsubscribe e l =
     CallUnsubscribe (unsubscribe_err e) #
       (case unsubscribe_err e of
          Some er \<Rightarrow> [Printf l (UnsubscribeError er)]
        | None \<Rightarrow> [])"

text \<open>What the main goroutine does in \<open>subscribe\<close>; the callback runs on another goroutine.\<close>

definition subscribe :: "env \<Rightarrow> logger \<Rightarrow> string \<Rightarrow> event list \<times> outcome" where
  "subscribe e l subject =
     after [Printf l (Subscribing subject), CallSubscribe subject (subscribe_err e)]
       (case subscribe_err e of
          Some er \<Rightarrow> Fatalf l (FailedSubscribe er)
        | None \<Rightarrow>
            after [CallNotify [SIGINT, SIGTERM]]
              (case signal_recv e of
                 None \<Rightarrow> ([], Blocked)
               | Some sg \<Rightarrow>
                   (Printf l (GotSignal sg) # CallDrain (drain_err e) #
                      (case drain_err e of
                         Some er \<Rightarrow> [Printf l (DrainError er)]
                       | None \<Rightarrow> []) @
                      Printf l Bye # deferred_unsubscribe e l,
                    Returned)))"

subsection \<open>main (lines 59-115)\<close>

text \<open>The three validation tests of lines 70-86, in the order of the source.\<close>

definition validate :: "flags \<Rightarrow> diag option" where
  "validate f =
     (if flag_mode f = [] \<or> flag_subject f = [] then Some FlagsRequired
      else if flag_mode f \<noteq> modePub \<and> flag_mode f \<noteq> modeSub then Some (BadMode (flag_mode f))
      else if flag_mode f = modePub \<and> flag_msg f = [] then Some MsgRequired
      else None)"

text \<open>The switch of lines 109-114; it has no default case.\<close>

definition dispatch :: "env \<Rightarrow> logger \<Rightarrow> flags \<Rightarrow> event list \<times> outcome" where
  "dispatch e l f =
     (if flag_mode f = modePub then publish e l (flag_subject f) (flag_msg f)
      else if flag_mode f = modeSub then subscribe e l (flag_subject f)
      else ([], Returned))"

text \<open>
  When \<open>main\<close> returns, the deferred \<open>nc.Close()\<close> of line 105 runs and the process ends
  with code 0. A process that exits through \<open>os.Exit\<close> runs no deferred function.
\<close>

definition run_deferred_close :: "event list \<times> outcome \<Rightarrow> event list \<times> outcome" where
  "run_deferred_close k =
     (case snd k of
        Returned \<Rightarrow> (fst k @ [CallClose], Exited 0)
      | Exited n \<Rightarrow> (fst k, Exited n)
      | Blocked \<Rightarrow> (fst k, Blocked))"

text \<open>Lines 69-115 as the main goroutine runs them, on the flag values \<open>f\<close>.\<close>

definition main_goroutine :: "env \<Rightarrow> flags \<Rightarrow> event list \<times> outcome" where
  "main_goroutine e f =
     (case validate f of
        Some d \<Rightarrow> ([Write StdErr (Diag d), Write StdErr UsageText], Exited 1)
      | None \<Rightarrow>
          (let l = new_logger (flag_mode f) in
           after [Printf l (Connecting (flag_url f)),
                  CallConnect (flag_url f) APP (connect_err e)]
             (case connect_err e of
                Some er \<Rightarrow> Fatalf l (FailedConnect (flag_url f) er)
              | None \<Rightarrow>
                  run_deferred_close
                    (after [Printf l ConnectedOk] (dispatch e l f)))))"

text \<open>
  The callback is invoked by the library on a goroutine of its own, once the subscription
  is registered. Its log lines therefore fall anywhere among the events of the main
  goroutine that follow the successful subscribe call, as the scheduler decides.
\<close>

fun interleave :: "bool list \<Rightarrow> 'a list \<Rightarrow> 'a list \<Rightarrow> 'a list" where
  "interleave sch [] ys = ys"
| "interleave sch (x # xs) [] = x # xs"
| "interleave [] (x # xs) (y # ys) = x # xs @ y # ys"
| "interleave (True # sch) (x # xs) (y # ys) = x # interleave sch xs (y # ys)"
| "interleave (False # sch) (x # xs) (y # ys) = y # interleave sch (x # xs) ys"

fun subscribed :: "event \<Rightarrow> bool" where
  "subscribed (CallSubscribe s None) = True"
| "subscribed ev = False"

definition with_callbacks :: "env \<Rightarrow> logger \<Rightarrow> event list \<Rightarrow> event list" where
  "with_callbacks e l t =
     takeWhile (\<lambda>ev. \<not> subscribed ev) t @
     (case dropWhile (\<lambda>ev. \<not> subscribed ev) t of
        [] \<Rightarrow> []
      | ev # rest \<Rightarrow> ev # interleave (schedule e) rest (map (callback l) (inbound e)))"

text \<open>The run on the flag values \<open>f\<close>, once \<open>flag.Parse\<close> has returned: both goroutines.\<close>

definition run :: "env \<Rightarrow> flags \<Rightarrow> event list \<times> outcome" where
  "run e f =
     (with_callbacks e (new_logger (flag_mode f)) (fst (main_goroutine e f)),
      snd (main_goroutine e f))"

text \<open>
  The whole of \<open>main\<close> on a command line. \<open>flag.Parse\<close> ends the process itself when it
  stops on help (the usage text, code 0) or on an error (the error line and the usage
  text, code 2).
\<close>

definition main :: "env \<Rightarrow> string list \<Rightarrow> event list \<times> outcome" where
  "main e args =
     (case snd (Parse args) of
        ParseHelp \<Rightarrow> ([Write StdErr UsageText], Exited 0)
      | ParseFailed d \<Rightarrow> ([Write StdErr (Diag d), Write StdErr UsageText], Exited 2)
      | ParseOk \<Rightarrow> run e (fst (Parse args)))"

subsection \<open>Observations on a run\<close>

text \<open>The events and the end of the process for a command line.\<close>

definition process_trace :: "env \<Rightarrow> string list \<Rightarrow> event list" where
  "process_trace e args = fst (main e args)"

definition process_exit :: "env \<Rightarrow> string list \<Rightarrow> outcome" where
  "process_exit e args = snd (main e args)"

text \<open>The same for the flag values \<open>f\<close> that a successful parse left.\<close>

definition trace :: "env \<Rightarrow> flags \<Rightarrow> event list" where
  "trace e f = fst (run e f)"

definition exit_status :: "env \<Rightarrow> flags \<Rightarrow> outcome" where
  "exit_status e f = snd (run e f)"

text \<open>A command line that stores exactly the values \<open>f\<close>.\<close>

definition command_line :: "flags \<Rightarrow> string list" where
  "command_line f =
     [''-mode'', flag_mode f, ''-subject'', flag_subject f,
      ''-msg'', flag_msg f, ''-url'', flag_url f]"

fun is_connect :: "event \<Rightarrow> bool" where
  "is_connect (CallConnect u n r) = True"
| "is_connect ev = False"

fun is_publish :: "event \<Rightarrow> bool" where
  "is_publish (CallPublish s p r) = True"
| "is_publish ev = False"

fun writes_to :: "stream \<Rightarrow> event \<Rightarrow> bool" where
  "writes_to s (Write s' x) = (s = s')"
| "writes_to s ev = False"

fun prints_usage :: "event \<Rightarrow> bool" where
  "prints_usage (Write s UsageText) = True"
| "prints_usage ev = False"

text \<open>The lines of the callback; the main goroutine writes none of them.\<close>

fun is_received :: "event \<Rightarrow> bool" where
  "is_received (Write s (LogLine p (Received subj d))) = True"
| "is_received ev = False"

text \<open>
  Which of the two mode branches a run enters: the first statement of \<open>publish\<close> logs
  \<open>Publishing\<close> and the first statement of \<open>subscribe\<close> logs \<open>Subscribing\<close>, and nothing
  else writes these lines.
\<close>

datatype branch = PublishOnce | SubscribeAndWait

fun branch_of :: "event \<Rightarrow> branch option" where
  "branch_of (Write s (LogLine p (Publishing subj))) = Some PublishOnce"
| "branch_of (Write s (LogLine p (Subscribing subj))) = Some SubscribeAndWait"
| "branch_of ev = None"

definition branches :: "event list \<Rightarrow> branch list" where
  "branches t = List.map_filter branch_of t"

subsection \<open>The connection's life cycle, as the specification names it\<close>

text \<open>
  The specification's states, read off the calls of a run: a successful connect enters
  \<open>Connected\<close>, a successful subscribe enters \<open>Subscribed\<close>, the call of drain enters
  \<open>Draining\<close>, the call of close enters \<open>Closed\<close>. Every run starts in \<open>Idle\<close>. A state
  is entered each time its call occurs, so a second subscribe or a second close would show
  as a second entry.
\<close>

datatype conn_state = Idle | Connected | Subscribed | Draining | Closed

fun state_after :: "event \<Rightarrow> conn_state option" where
  "state_after (CallConnect u n None) = Some Connected"
| "state_after (CallSubscribe s None) = Some Subscribed"
| "state_after (CallDrain r) = Some Draining"
| "state_after CallClose = Some Closed"
| "state_after ev = None"

definition lifecycle :: "event list \<Rightarrow> conn_state list" where
  "lifecycle t = Idle # List.map_filter state_after t"

subsection \<open>Sample invocations and environments\<close>

text \<open>The two invocations of the usage text (lines 27-31), with the default URL.\<close>

definition ex_pub :: flags where
  "ex_pub = \<lparr>flag_mode = ''pub'', flag_subject = ''greetings'',
     flag_msg = ''Hello NATS World!'', flag_url = ''nats://127.0.0.1:4222''\<rparr>"

definition ex_sub :: flags where
  "ex_sub = \<lparr>flag_mode = ''sub'', flag_subject = ''greetings'',
     flag_msg = [], flag_url = ''nats://127.0.0.1:4222''\<rparr>"

definition ex_pub_args :: "string list" where
  "ex_pub_args = [''-mode'', ''pub'', ''-subject'', ''greetings'', ''-msg'', ''Hello NATS World!'']"

definition ex_sub_args :: "string list" where
  "ex_sub_args = [''-mode'', ''sub'', ''-subject'', ''greetings'']"

text \<open>
  Every call succeeds, one message comes in and is logged after the signal line, then
  SIGINT arrives.
\<close>

definition ex_env_ok :: env where
  "ex_env_ok = \<lparr>connect_err = None, publish_err = None, flush_err = None,
     subscribe_err = None, inbound = [(''greetings'', ''Hello NATS World!'')],
     schedule = [True, True, False], signal_recv = Some SIGINT, drain_err = None,
     unsubscribe_err = None\<rparr>"

definition ex_env_connect_fails :: env where
  "ex_env_connect_fails = ex_env_ok\<lparr>connect_err := Some ''nats: no servers available for connection''\<rparr>"

definition ex_env_publish_fails :: env where
  "ex_env_publish_fails = ex_env_ok\<lparr>publish_err := Some ''nats: maximum payload exceeded''\<rparr>"

definition ex_env_drain_fails :: env where
  "ex_env_drain_fails = ex_env_ok\<lparr>drain_err := Some ''nats: connection closed''\<rparr>"


section \<open>The command line\<close>

lemma parse_command_line: "Parse (command_line f) = (f, ParseOk)"
  by (simp add: Parse_def command_line_def parseOne_def split_eq_def is_defined_def
      set_flag_def default_flags_def Let_def)

lemma main_parsed: "snd (Parse args) = ParseOk \<Longrightarrow> main e args = run e (fst (Parse args))"
  by (simp add: main_def)

lemma main_help:
  "snd (Parse args) = ParseHelp \<Longrightarrow> main e args = ([Write StdErr UsageText], Exited 0)"
  by (simp add: main_def)

lemma main_parse_failed:
  "snd (Parse args) = ParseFailed d \<Longrightarrow>
   main e args = ([Write StdErr (Diag d), Write StdErr UsageText], Exited 2)"
  by (simp add: main_def)

text \<open>Every choice of the four flag values is the result of parsing some command line.\<close>

lemma main_command_line: "main e (command_line f) = run e f"
  by (simp add: main_def parse_command_line)

lemma parse_ex_pub_args: "Parse ex_pub_args = (ex_pub, ParseOk)"
  by (simp add: Parse_def ex_pub_args_def ex_pub_def parseOne_def split_eq_def is_defined_def
      set_flag_def default_flags_def DefaultURL_def Let_def)

lemma parse_ex_sub_args: "Parse ex_sub_args = (ex_sub, ParseOk)"
  by (simp add: Parse_def ex_sub_args_def ex_sub_def parseOne_def split_eq_def is_defined_def
      set_flag_def default_flags_def DefaultURL_def Let_def)

section \<open>The callback's lines among the events of the main goroutine\<close>

lemma interleave_filter:
  "(\<And>y. y \<in> set ys \<Longrightarrow> \<not> P y) \<Longrightarrow> filter P (interleave sch xs ys) = filter P xs"
  by (induction sch xs ys rule: interleave.induct) auto

lemma with_callbacks_filter:
  assumes "\<And>m. \<not> P (callback l m)"
  shows "filter P (with_callbacks e l t) = filter P t"
proof -
  let ?Q = "\<lambda>ev. \<not> subscribed ev"
  have cb: "filter P (interleave (schedule e) rest (map (callback l) (inbound e))) = filter P rest"
    for rest
    by (rule interleave_filter) (auto simp: assms)
  have split: "filter P t = filter P (takeWhile ?Q t) @ filter P (dropWhile ?Q t)"
    by (metis filter_append takeWhile_dropWhile_id)
  show ?thesis
  proof (cases "dropWhile ?Q t")
    case Nil
    show ?thesis
      unfolding with_callbacks_def split Nil by simp
  next
    case (Cons ev rest)
    show ?thesis
      unfolding with_callbacks_def split Cons by (simp add: cb)
  qed
qed

lemma with_callbacks_map_filter:
  assumes "\<And>m. g (callback l m) = None"
  shows "List.map_filter g (with_callbacks e l t) = List.map_filter g t"
  by (simp add: map_filter_def with_callbacks_filter assms)

lemma with_callbacks_none:
  assumes "filter subscribed t = []"
  shows "with_callbacks e l t = t"
proof -
  from assms have n: "\<forall>ev\<in>set t. \<not> subscribed ev"
    by (simp add: filter_empty_conv)
  then have d: "dropWhile (\<lambda>ev. \<not> subscribed ev) t = []"
    and k: "takeWhile (\<lambda>ev. \<not> subscribed ev) t = t"
    by simp_all
  show ?thesis
    unfolding with_callbacks_def d k by simp
qed

lemma exit_status_main_goroutine: "exit_status e f = snd (main_goroutine e f)"
  by (simp add: exit_status_def run_def)

lemma trace_filter:
  "(\<And>m. \<not> P (callback (new_logger (flag_mode f)) m)) \<Longrightarrow>
   filter P (trace e f) = filter P (fst (main_goroutine e f))"
  by (simp add: trace_def run_def with_callbacks_filter)

lemma trace_map_filter:
  "(\<And>m. g (callback (new_logger (flag_mode f)) m) = None) \<Longrightarrow>
   List.map_filter g (trace e f) = List.map_filter g (fst (main_goroutine e f))"
  by (simp add: trace_def run_def with_callbacks_map_filter)

lemma trace_without_subscription:
  "filter subscribed (fst (main_goroutine e f)) = [] \<Longrightarrow> trace e f = fst (main_goroutine e f)"
  by (simp add: trace_def run_def with_callbacks_none)

lemma callback_is_received: "is_received (callback l m)"
  by (simp add: callback_def Printf_def)

lemma callback_not_stderr: "\<not> writes_to StdErr (callback (new_logger x) m)"
  by (simp add: callback_def Printf_def new_logger_def)

lemma callback_not_usage: "\<not> prints_usage (callback l m)"
  by (simp add: callback_def Printf_def)

lemma callback_not_connect: "\<not> is_connect (callback l m)"
  by (simp add: callback_def Printf_def)

lemma callback_not_publish: "\<not> is_publish (callback l m)"
  by (simp add: callback_def Printf_def)

lemma callback_not_close: "\<not> callback l m = CallClose"
  by (simp add: callback_def Printf_def)

lemma callback_no_branch: "branch_of (callback l m) = None"
  by (simp add: callback_def Printf_def)

lemma callback_no_state: "state_after (callback l m) = None"
  by (simp add: callback_def Printf_def)

section \<open>The main goroutine, case by case\<close>

lemma validate_cases:
  "validate f = None \<longleftrightarrow>
     flag_subject f \<noteq> [] \<and>
     (flag_mode f = modeSub \<or> flag_mode f = modePub \<and> flag_msg f \<noteq> [])"
  by (auto simp: validate_def modePub_def modeSub_def)

lemma validate_pub:
  "flag_mode f = modePub \<Longrightarrow> flag_subject f \<noteq> [] \<Longrightarrow> flag_msg f \<noteq> [] \<Longrightarrow> validate f = None"
  by (simp add: validate_cases)

lemma validate_sub:
  "flag_mode f = modeSub \<Longrightarrow> flag_subject f \<noteq> [] \<Longrightarrow> validate f = None"
  by (simp add: validate_cases)

lemma validated_mode:
  "validate f = None \<Longrightarrow> flag_mode f = modePub \<or> flag_mode f = modeSub"
  by (auto simp: validate_cases)

lemma mg_invalid:
  "validate f = Some d \<Longrightarrow>
   main_goroutine e f = ([Write StdErr (Diag d), Write StdErr UsageText], Exited 1)"
  by (simp add: main_goroutine_def)

lemma mg_connect_fails:
  assumes "validate f = None" and "connect_err e = Some er"
  shows "main_goroutine e f =
    ([Printf (new_logger (flag_mode f)) (Connecting (flag_url f)),
      CallConnect (flag_url f) APP (Some er),
      Printf (new_logger (flag_mode f)) (FailedConnect (flag_url f) er)], Exited 1)"
  using assms by (simp add: main_goroutine_def after_def Fatalf_def Let_def)

lemma mg_connected:
  assumes "validate f = None" and "connect_err e = None"
  shows "main_goroutine e f =
    after [Printf (new_logger (flag_mode f)) (Connecting (flag_url f)),
           CallConnect (flag_url f) APP None,
           Printf (new_logger (flag_mode f)) ConnectedOk]
      (run_deferred_close (dispatch e (new_logger (flag_mode f)) f))"
  using assms
  by (simp add: main_goroutine_def after_def run_deferred_close_def Let_def
      split: outcome.splits)

lemma publish_fails:
  "publish_err e = Some er \<Longrightarrow>
   publish e l s m =
     ([Printf l (Publishing s), CallPublish s m (Some er), Printf l (FailedPublish er)],
      Exited 1)"
  by (simp add: publish_def after_def Fatalf_def)

lemma flush_fails:
  "publish_err e = None \<Longrightarrow> flush_err e = Some er \<Longrightarrow>
   publish e l s m =
     ([Printf l (Publishing s), CallPublish s m None, CallFlush (Some er),
       Printf l (FailedFlush er)], Exited 1)"
  by (simp add: publish_def after_def Fatalf_def)

lemma publish_ok:
  "publish_err e = None \<Longrightarrow> flush_err e = None \<Longrightarrow>
   publish e l s m =
     ([Printf l (Publishing s), CallPublish s m None, CallFlush None,
       Printf l (Published s m)], Returned)"
  by (simp add: publish_def after_def)

lemma subscribe_fails:
  "subscribe_err e = Some er \<Longrightarrow>
   subscribe e l s =
     ([Printf l (Subscribing s), CallSubscribe s (Some er), Printf l (FailedSubscribe er)],
      Exited 1)"
  by (simp add: subscribe_def after_def Fatalf_def)

lemma subscribe_blocks:
  "subscribe_err e = None \<Longrightarrow> signal_recv e = None \<Longrightarrow>
   subscribe e l s =
     ([Printf l (Subscribing s), CallSubscribe s None, CallNotify [SIGINT, SIGTERM]], Blocked)"
  by (simp add: subscribe_def after_def)

lemma subscribe_signalled:
  "subscribe_err e = None \<Longrightarrow> signal_recv e = Some sg \<Longrightarrow>
   subscribe e l s =
     ([Printf l (Subscribing s), CallSubscribe s None, CallNotify [SIGINT, SIGTERM],
       Printf l (GotSignal sg), CallDrain (drain_err e)] @
        (case drain_err e of Some er \<Rightarrow> [Printf l (DrainError er)] | None \<Rightarrow> []) @
        [Printf l Bye] @ deferred_unsubscribe e l, Returned)"
  by (simp add: subscribe_def after_def)

lemma dispatch_pub:
  "flag_mode f = modePub \<Longrightarrow> dispatch e l f = publish e l (flag_subject f) (flag_msg f)"
  by (simp add: dispatch_def)

lemma dispatch_sub:
  "flag_mode f = modeSub \<Longrightarrow> dispatch e l f = subscribe e l (flag_subject f)"
  by (simp add: dispatch_def modePub_def modeSub_def)

lemma mg_pub_ok:
  assumes "validate f = None" and "flag_mode f = modePub" and "connect_err e = None"
    and "publish_err e = None" and "flush_err e = None"
  shows "main_goroutine e f =
    ([Printf (new_logger modePub) (Connecting (flag_url f)),
      CallConnect (flag_url f) APP None,
      Printf (new_logger modePub) ConnectedOk,
      Printf (new_logger modePub) (Publishing (flag_subject f)),
      CallPublish (flag_subject f) (flag_msg f) None,
      CallFlush None,
      Printf (new_logger modePub) (Published (flag_subject f) (flag_msg f)),
      CallClose], Exited 0)"
  unfolding mg_connected [OF assms(1,3)] dispatch_pub [OF assms(2)] publish_ok [OF assms(4,5)]
  by (simp add: after_def run_deferred_close_def assms(2))

lemma mg_pub_publish_fails:
  assumes "validate f = None" and "flag_mode f = modePub" and "connect_err e = None"
    and "publish_err e = Some er"
  shows "main_goroutine e f =
    ([Printf (new_logger modePub) (Connecting (flag_url f)),
      CallConnect (flag_url f) APP None,
      Printf (new_logger modePub) ConnectedOk,
      Printf (new_logger modePub) (Publishing (flag_subject f)),
      CallPublish (flag_subject f) (flag_msg f) (Some er),
      Printf (new_logger modePub) (FailedPublish er)], Exited 1)"
  unfolding mg_connected [OF assms(1,3)] dispatch_pub [OF assms(2)] publish_fails [OF assms(4)]
  by (simp add: after_def run_deferred_close_def assms(2))

lemma mg_pub_flush_fails:
  assumes "validate f = None" and "flag_mode f = modePub" and "connect_err e = None"
    and "publish_err e = None" and "flush_err e = Some er"
  shows "main_goroutine e f =
    ([Printf (new_logger modePub) (Connecting (flag_url f)),
      CallConnect (flag_url f) APP None,
      Printf (new_logger modePub) ConnectedOk,
      Printf (new_logger modePub) (Publishing (flag_subject f)),
      CallPublish (flag_subject f) (flag_msg f) None,
      CallFlush (Some er),
      Printf (new_logger modePub) (FailedFlush er)], Exited 1)"
  unfolding mg_connected [OF assms(1,3)] dispatch_pub [OF assms(2)] flush_fails [OF assms(4,5)]
  by (simp add: after_def run_deferred_close_def assms(2))

lemma mg_sub_subscribe_fails:
  assumes "validate f = None" and "flag_mode f = modeSub" and "connect_err e = None"
    and "subscribe_err e = Some er"
  shows "main_goroutine e f =
    ([Printf (new_logger modeSub) (Connecting (flag_url f)),
      CallConnect (flag_url f) APP None,
      Printf (new_logger modeSub) ConnectedOk,
      Printf (new_logger modeSub) (Subscribing (flag_subject f)),
      CallSubscribe (flag_subject f) (Some er),
      Printf (new_logger modeSub) (FailedSubscribe er)], Exited 1)"
  unfolding mg_connected [OF assms(1,3)] dispatch_sub [OF assms(2)] subscribe_fails [OF assms(4)]
  by (simp add: after_def run_deferred_close_def assms(2))

lemma mg_sub_blocks:
  assumes "validate f = None" and "flag_mode f = modeSub" and "connect_err e = None"
    and "subscribe_err e = None" and "signal_recv e = None"
  shows "main_goroutine e f =
    ([Printf (new_logger modeSub) (Connecting (flag_url f)),
      CallConnect (flag_url f) APP None,
      Printf (new_logger modeSub) ConnectedOk,
      Printf (new_logger modeSub) (Subscribing (flag_subject f)),
      CallSubscribe (flag_subject f) None,
      CallNotify [SIGINT, SIGTERM]], Blocked)"
  unfolding mg_connected [OF assms(1,3)] dispatch_sub [OF assms(2)] subscribe_blocks [OF assms(4,5)]
  by (simp add: after_def run_deferred_close_def assms(2))

lemma mg_sub_signalled:
  assumes "validate f = None" and "flag_mode f = modeSub" and "connect_err e = None"
    and "subscribe_err e = None" and "signal_recv e = Some sg"
  shows "main_goroutine e f =
    ([Printf (new_logger modeSub) (Connecting (flag_url f)),
      CallConnect (flag_url f) APP None,
      Printf (new_logger modeSub) ConnectedOk,
      Printf (new_logger modeSub) (Subscribing (flag_subject f)),
      CallSubscribe (flag_subject f) None,
      CallNotify [SIGINT, SIGTERM],
      Printf (new_logger modeSub) (GotSignal sg),
      CallDrain (drain_err e)] @
     (case drain_err e of
        Some er \<Rightarrow> [Printf (new_logger modeSub) (DrainError er)]
      | None \<Rightarrow> []) @
     [Printf (new_logger modeSub) Bye] @
     deferred_unsubscribe e (new_logger modeSub) @
     [CallClose], Exited 0)"
  unfolding mg_connected [OF assms(1,3)] dispatch_sub [OF assms(2)]
    subscribe_signalled [OF assms(4,5)]
  by (simp add: after_def run_deferred_close_def assms(2) split: option.splits)

text \<open>Without a registered subscription the callback never runs.\<close>

lemma trace_invalid:
  "validate f = Some d \<Longrightarrow> trace e f = [Write StdErr (Diag d), Write StdErr UsageText]"
  by (simp add: trace_without_subscription mg_invalid)

lemma trace_connect_fails:
  assumes "validate f = None" and "connect_err e = Some er"
  shows "trace e f = fst (main_goroutine e f)"
  by (rule trace_without_subscription) (simp add: mg_connect_fails [OF assms] Printf_def)

lemma trace_pub:
  assumes "validate f = None" and "flag_mode f = modePub"
  shows "trace e f = fst (main_goroutine e f)"
proof (rule trace_without_subscription)
  show "filter subscribed (fst (main_goroutine e f)) = []"
  proof (cases "connect_err e")
    case (Some er)
    then show ?thesis by (simp add: mg_connect_fails [OF assms(1)] Printf_def)
  next
    case None
    then show ?thesis
      by (simp add: mg_connected [OF assms(1)] dispatch_pub [OF assms(2)] after_def
          run_deferred_close_def publish_def Fatalf_def Printf_def
          split: option.splits outcome.splits)
  qed
qed

lemma trace_sub_subscribe_fails:
  assumes "validate f = None" and "flag_mode f = modeSub" and "connect_err e = None"
    and "subscribe_err e = Some er"
  shows "trace e f = fst (main_goroutine e f)"
  by (rule trace_without_subscription)
    (simp add: mg_sub_subscribe_fails [OF assms] Printf_def)

section \<open>Validation\<close>

text \<open>
  Claim C2, as the code has it. When the value of \<open>-mode\<close> or of \<open>-subject\<close> is empty, the
  connect operation is never called. If \<open>flag.Parse\<close> accepts the command line, the run
  consists of the error line and the usage text on standard error and the process exits
  with code 1. If the command line asks for help the process exits with code 0, and if
  \<open>flag.Parse\<close> rejects it the process exits with code 2, in both cases before line 70.
\<close>

theorem empty_mode_or_subject_never_connects:
  assumes "flag_mode (fst (Parse args)) = [] \<or> flag_subject (fst (Parse args)) = []"
  shows "filter is_connect (process_trace e args) = [] \<and>
         (snd (Parse args) = ParseOk \<longrightarrow>
            process_exit e args = Exited 1 \<and>
            process_trace e args = [Write StdErr (Diag FlagsRequired), Write StdErr UsageText]) \<and>
         (snd (Parse args) = ParseHelp \<longrightarrow> process_exit e args = Exited 0) \<and>
         (snd (Parse args) = ParseFailed d \<longrightarrow> process_exit e args = Exited 2)"
proof -
  from assms have v: "validate (fst (Parse args)) = Some FlagsRequired"
    by (simp add: validate_def)
  show ?thesis
  proof (cases "snd (Parse args)")
    case ParseOk
    then show ?thesis
      by (simp add: process_trace_def process_exit_def main_parsed
          trace_invalid [OF v, unfolded trace_def]
          exit_status_main_goroutine [unfolded exit_status_def] mg_invalid [OF v])
  next
    case ParseHelp
    then show ?thesis
      by (simp add: process_trace_def process_exit_def main_help)
  next
    case (ParseFailed d')
    then show ?thesis
      by (simp add: process_trace_def process_exit_def main_parse_failed)
  qed
qed

theorem empty_mode_or_subject_never_connects_witness:
  "(flag_mode (fst (Parse [''-subject'', ''greetings''])) = [] \<or>
    flag_subject (fst (Parse [''-subject'', ''greetings''])) = []) \<and>
   snd (Parse [''-subject'', ''greetings'']) = ParseOk \<and>
   filter is_connect (process_trace ex_env_ok [''-subject'', ''greetings'']) = [] \<and>
   process_exit ex_env_ok [''-subject'', ''greetings''] = Exited 1 \<and>
   process_trace ex_env_ok [''-subject'', ''greetings''] =
     [Write StdErr (Diag FlagsRequired), Write StdErr UsageText]"
proof -
  have p: "Parse [''-subject'', ''greetings''] =
      (default_flags\<lparr>flag_subject := ''greetings''\<rparr>, ParseOk)"
    by (simp add: Parse_def parseOne_def split_eq_def is_defined_def set_flag_def Let_def)
  have h: "flag_mode (fst (Parse [''-subject'', ''greetings''])) = [] \<or>
      flag_subject (fst (Parse [''-subject'', ''greetings''])) = []"
    by (simp add: p default_flags_def)
  from empty_mode_or_subject_never_connects [OF h, of ex_env_ok] h p
  show ?thesis by simp
qed

text \<open>
  The claim as written fails at the command line \<open>-h\<close>: both values are empty and the
  process exits with code 0.
\<close>

theorem help_with_empty_flags_exits_0:
  "flag_mode (fst (Parse [''-h''])) = [] \<and> flag_subject (fst (Parse [''-h''])) = [] \<and>
   process_exit ex_env_ok [''-h''] = Exited 0"
proof -
  have p: "Parse [''-h''] = (default_flags, ParseHelp)"
    by (simp add: Parse_def parseOne_def split_eq_def is_defined_def Let_def)
  show ?thesis
    by (simp add: p process_exit_def main_def default_flags_def)
qed

text \<open>
  Claim C3, as the code has it. With mode \<open>pub\<close> and an empty \<open>-msg\<close> value the connect
  operation is never called. If \<open>flag.Parse\<close> accepts the command line, validation fails:
  the run consists of one error line and the usage text, both on standard error, and the
  process exits with code 1. If the command line asks for help the run is the usage text
  alone and the process exits with code 0; if \<open>flag.Parse\<close> rejects the command line the
  run is its error line and the usage text and the process exits with code 2.
\<close>

theorem pub_without_msg_never_connects:
  assumes "flag_mode (fst (Parse args)) = modePub" and "flag_msg (fst (Parse args)) = []"
  shows "filter is_connect (process_trace e args) = [] \<and>
         (snd (Parse args) = ParseOk \<longrightarrow>
            process_exit e args = Exited 1 \<and>
            process_trace e args =
              [Write StdErr (Diag (if flag_subject (fst (Parse args)) = []
                                   then FlagsRequired else MsgRequired)),
               Write StdErr UsageText]) \<and>
         (snd (Parse args) = ParseHelp \<longrightarrow>
            process_exit e args = Exited 0 \<and>
            process_trace e args = [Write StdErr UsageText]) \<and>
         (snd (Parse args) = ParseFailed d \<longrightarrow>
            process_exit e args = Exited 2 \<and>
            process_trace e args = [Write StdErr (Diag d), Write StdErr UsageText])"
proof -
  from assms
  have v: "validate (fst (Parse args)) =
      Some (if flag_subject (fst (Parse args)) = [] then FlagsRequired else MsgRequired)"
    by (simp add: validate_def modePub_def)
  show ?thesis
  proof (cases "snd (Parse args)")
    case ParseOk
    then show ?thesis
      by (simp add: process_trace_def process_exit_def main_parsed
          trace_invalid [OF v, unfolded trace_def]
          exit_status_main_goroutine [unfolded exit_status_def] mg_invalid [OF v])
  next
    case ParseHelp
    then show ?thesis
      by (simp add: process_trace_def process_exit_def main_help)
  next
    case (ParseFailed d')
    then show ?thesis
      by (simp add: process_trace_def process_exit_def main_parse_failed)
  qed
qed

theorem pub_without_msg_never_connects_witness:
  "flag_mode (fst (Parse [''-mode'', ''pub'', ''-subject'', ''greetings''])) = modePub \<and>
   flag_msg (fst (Parse [''-mode'', ''pub'', ''-subject'', ''greetings''])) = [] \<and>
   snd (Parse [''-mode'', ''pub'', ''-subject'', ''greetings'']) = ParseOk \<and>
   filter is_connect
     (process_trace ex_env_ok [''-mode'', ''pub'', ''-subject'', ''greetings'']) = [] \<and>
   process_exit ex_env_ok [''-mode'', ''pub'', ''-subject'', ''greetings''] = Exited 1 \<and>
   process_trace ex_env_ok [''-mode'', ''pub'', ''-subject'', ''greetings''] =
     [Write StdErr (Diag MsgRequired), Write StdErr UsageText]"
proof -
  have p: "Parse [''-mode'', ''pub'', ''-subject'', ''greetings''] =
      (default_flags\<lparr>flag_mode := ''pub'', flag_subject := ''greetings''\<rparr>, ParseOk)"
    by (simp add: Parse_def parseOne_def split_eq_def is_defined_def set_flag_def Let_def)
  have h: "flag_mode (fst (Parse [''-mode'', ''pub'', ''-subject'', ''greetings''])) = modePub"
    "flag_msg (fst (Parse [''-mode'', ''pub'', ''-subject'', ''greetings''])) = []"
    by (simp_all add: p default_flags_def modePub_def)
  from pub_without_msg_never_connects [OF h, of ex_env_ok] h p
  show ?thesis by simp
qed

text \<open>
  The claim as written fails at the command line \<open>-mode pub -h\<close>: the mode is \<open>pub\<close>, the
  message is empty, and the process prints the usage text without an error line and
  exits with code 0.
\<close>

theorem pub_help_exits_0:
  "flag_mode (fst (Parse [''-mode'', ''pub'', ''-h''])) = ''pub'' \<and>
   flag_msg (fst (Parse [''-mode'', ''pub'', ''-h''])) = [] \<and>
   main ex_env_ok [''-mode'', ''pub'', ''-h''] = ([Write StdErr UsageText], Exited 0)"
proof -
  have p: "Parse [''-mode'', ''pub'', ''-h''] = (default_flags\<lparr>flag_mode := ''pub''\<rparr>, ParseHelp)"
    by (simp add: Parse_def parseOne_def split_eq_def is_defined_def set_flag_def Let_def)
  show ?thesis
    by (simp add: p main_def default_flags_def)
qed

text \<open>
  Claim C10. The value of \<open>-url\<close> takes no part in validation: replacing it by any string,
  the empty one included, leaves the verdict of validation as it was, and a run that
  passes validation calls connect exactly once, with that string as it is.
\<close>

theorem url_is_not_validated:
  "validate (f\<lparr>flag_url := u\<rparr>) = validate f \<and>
   (validate f = None \<longrightarrow>
      filter is_connect (trace e (f\<lparr>flag_url := u\<rparr>)) = [CallConnect u APP (connect_err e)])"
proof -
  have v: "validate (f\<lparr>flag_url := u\<rparr>) = validate f"
    by (simp add: validate_def)
  have "filter is_connect (trace e (f\<lparr>flag_url := u\<rparr>)) = [CallConnect u APP (connect_err e)]"
    if ok: "validate f = None"
  proof -
    from ok v have ok': "validate (f\<lparr>flag_url := u\<rparr>) = None" by simp
    from ok have m: "flag_mode f = modePub \<or> flag_mode f = modeSub"
      by (rule validated_mode)
    have t: "filter is_connect (trace e (f\<lparr>flag_url := u\<rparr>)) =
        filter is_connect (fst (main_goroutine e (f\<lparr>flag_url := u\<rparr>)))"
      by (rule trace_filter) (rule callback_not_connect)
    show ?thesis
    proof (cases "connect_err e")
      case (Some er)
      then show ?thesis
        by (simp add: t mg_connect_fails [OF ok'] Printf_def)
    next
      case None
      with m show ?thesis
        by (auto simp: t mg_connected [OF ok'] after_def run_deferred_close_def
              dispatch_def publish_def subscribe_def Fatalf_def Printf_def
              deferred_unsubscribe_def
            split: option.splits outcome.splits)
    qed
  qed
  with v show ?thesis by blast
qed

theorem url_is_not_validated_witness:
  "validate (ex_sub\<lparr>flag_url := []\<rparr>) = validate ex_sub \<and> validate ex_sub = None \<and>
   filter is_connect (trace ex_env_ok (ex_sub\<lparr>flag_url := []\<rparr>)) = [CallConnect [] APP None]"
  using url_is_not_validated [where f = ex_sub and u = "[]" and e = ex_env_ok]
  by (simp add: ex_sub_def ex_env_ok_def validate_def modePub_def modeSub_def)

section \<open>Release of the connection\<close>

text \<open>
  Claim C1. The connection is closed on every exit path once it is established. The run
  below is the publish invocation of the usage text against a server that accepts the
  connection and a publish call that returns an error: \<open>l.Fatalf\<close> (line 135) ends the
  process with code 1, and the deferred \<open>nc.Close()\<close> of line 105 never runs, so the run
  ends without a close call.
\<close>

theorem publish_failure_exits_without_close:
  "main ex_env_publish_fails ex_pub_args =
     ([Write StdOut (LogLine ''NATS-BASIC [pub] '' (Connecting ''nats://127.0.0.1:4222'')),
       CallConnect ''nats://127.0.0.1:4222'' ''NATS-BASIC'' None,
       Write StdOut (LogLine ''NATS-BASIC [pub] '' ConnectedOk),
       Write StdOut (LogLine ''NATS-BASIC [pub] '' (Publishing ''greetings'')),
       CallPublish ''greetings'' ''Hello NATS World!'' (Some ''nats: maximum payload exceeded''),
       Write StdOut (LogLine ''NATS-BASIC [pub] ''
         (FailedPublish ''nats: maximum payload exceeded''))],
      Exited 1) \<and>
   filter (\<lambda>ev. ev = CallClose) (process_trace ex_env_publish_fails ex_pub_args) = []"
proof -
  have v: "validate ex_pub = None"
    by (simp add: validate_cases ex_pub_def modePub_def)
  have c: "connect_err ex_env_publish_fails = None"
    by (simp add: ex_env_publish_fails_def ex_env_ok_def)
  have p: "publish_err ex_env_publish_fails = Some ''nats: maximum payload exceeded''"
    by (simp add: ex_env_publish_fails_def)
  have m: "flag_mode ex_pub = modePub"
    by (simp add: ex_pub_def modePub_def)
  have u: "flag_url ex_pub = ''nats://127.0.0.1:4222''" "flag_subject ex_pub = ''greetings''"
    "flag_msg ex_pub = ''Hello NATS World!''"
    by (simp_all add: ex_pub_def)
  have "main ex_env_publish_fails ex_pub_args = run ex_env_publish_fails ex_pub"
    by (simp add: main_def parse_ex_pub_args)
  also have "\<dots> = main_goroutine ex_env_publish_fails ex_pub"
    using trace_pub [OF v m, of ex_env_publish_fails]
    by (simp add: run_def trace_def)
  finally have "main ex_env_publish_fails ex_pub_args =
     ([Write StdOut (LogLine ''NATS-BASIC [pub] '' (Connecting ''nats://127.0.0.1:4222'')),
       CallConnect ''nats://127.0.0.1:4222'' ''NATS-BASIC'' None,
       Write StdOut (LogLine ''NATS-BASIC [pub] '' ConnectedOk),
       Write StdOut (LogLine ''NATS-BASIC [pub] '' (Publishing ''greetings'')),
       CallPublish ''greetings'' ''Hello NATS World!'' (Some ''nats: maximum payload exceeded''),
       Write StdOut (LogLine ''NATS-BASIC [pub] ''
         (FailedPublish ''nats: maximum payload exceeded''))],
      Exited 1)"
    unfolding mg_pub_publish_fails [OF v m c p] u
    by (simp add: Printf_def new_logger_def APP_def modePub_def)
  then show ?thesis
    by (simp add: process_trace_def)
qed

section \<open>Mode dispatch\<close>

lemma branches_append: "branches (xs @ ys) = branches xs @ branches ys"
  by (simp add: branches_def map_filter_def)

lemma branches_Cons:
  "branches (ev # t) = (case branch_of ev of None \<Rightarrow> [] | Some b \<Rightarrow> [b]) @ branches t"
  by (simp add: branches_def map_filter_def split: option.splits)

lemma branches_Nil: "branches [] = []"
  by (simp add: branches_def map_filter_def)

lemma branches_unsubscribe: "branches (deferred_unsubscribe e l) = []"
  by (simp add: deferred_unsubscribe_def branches_Nil branches_Cons Printf_def
      split: option.splits)

lemma branches_publish: "branches (fst (publish e l s m)) = [PublishOnce]"
  by (simp add: publish_def after_def Fatalf_def Printf_def branches_Nil branches_Cons
      split: option.splits)

lemma branches_subscribe: "branches (fst (subscribe e l s)) = [SubscribeAndWait]"
  by (simp add: subscribe_def after_def Fatalf_def Printf_def branches_Nil branches_Cons
      branches_append branches_unsubscribe
      split: option.splits)

lemma branches_run_deferred_close:
  "branches (fst (run_deferred_close k)) = branches (fst k)"
  by (simp add: run_deferred_close_def branches_append branches_Cons branches_Nil
      split: outcome.splits)

lemma branches_trace: "branches (trace e f) = branches (fst (main_goroutine e f))"
  unfolding branches_def by (rule trace_map_filter) (rule callback_no_branch)

text \<open>
  Claim C4, as the code has it. A run that passes validation has mode \<open>pub\<close> or \<open>sub\<close>.
  When the connection is established it enters exactly one of the two branches, the one
  its mode names; when the connection fails it enters neither. No run enters both.
\<close>

theorem validated_run_enters_one_branch:
  assumes "validate f = None"
  shows "(flag_mode f = modePub \<or> flag_mode f = modeSub) \<and>
         branches (trace e f) =
           (if connect_err e = None
            then [if flag_mode f = modePub then PublishOnce else SubscribeAndWait]
            else [])"
proof -
  from assms have m: "flag_mode f = modePub \<or> flag_mode f = modeSub"
    by (rule validated_mode)
  have "branches (trace e f) = []" if "connect_err e = Some er" for er
    by (simp add: branches_trace mg_connect_fails [OF assms that] Printf_def
        branches_Cons branches_Nil)
  moreover have "branches (trace e f) = [if flag_mode f = modePub then PublishOnce else SubscribeAndWait]"
    if c: "connect_err e = None"
  proof -
    have "branches (trace e f) = branches (fst (dispatch e (new_logger (flag_mode f)) f))"
      by (simp add: branches_trace mg_connected [OF assms c] after_def branches_append
          branches_Cons branches_Nil Printf_def branches_run_deferred_close)
    with m show ?thesis
      by (auto simp: dispatch_pub dispatch_sub branches_publish branches_subscribe
          modePub_def modeSub_def)
  qed
  ultimately show ?thesis
    using m by (cases "connect_err e") auto
qed

theorem validated_run_enters_one_branch_witness:
  "validate ex_pub = None \<and> flag_mode ex_pub = modePub \<and>
   branches (trace ex_env_ok ex_pub) = [PublishOnce]"
  using validated_run_enters_one_branch [where f = ex_pub and e = ex_env_ok]
  by (simp add: validate_cases ex_pub_def ex_env_ok_def modePub_def modeSub_def)

text \<open>
  The claim as written fails at the subscribe invocation of the usage text when the server
  cannot be reached: validation passes and neither branch is entered.
\<close>

theorem no_branch_when_connect_fails:
  "validate ex_sub = None \<and> branches (trace ex_env_connect_fails ex_sub) = []"
proof -
  have v: "validate ex_sub = None"
    by (simp add: validate_cases ex_sub_def modeSub_def)
  have c: "connect_err ex_env_connect_fails = Some ''nats: no servers available for connection''"
    by (simp add: ex_env_connect_fails_def)
  show ?thesis
    by (simp add: v branches_trace mg_connect_fails [OF v c] Printf_def branches_Cons
        branches_Nil)
qed

section \<open>Publish mode\<close>

text \<open>
  Claim C5, as the code has it. A publish invocation with non-empty subject and message
  passes validation. When the connection is established, publish is called exactly once,
  with the subject and the message as given; when it is not, publish is not called. A run
  that ends with code 0 is the sequence connect, publish, flush, close: the flush comes
  after the publish and before the exit.
\<close>

theorem valid_publish_run:
  assumes "flag_mode f = modePub" and "flag_subject f \<noteq> []" and "flag_msg f \<noteq> []"
  shows "validate f = None \<and>
         filter is_publish (trace e f) =
           (if connect_err e = None
            then [CallPublish (flag_subject f) (flag_msg f) (publish_err e)]
            else []) \<and>
         (exit_status e f = Exited 0 \<longrightarrow>
            trace e f =
              [Printf (new_logger modePub) (Connecting (flag_url f)),
               CallConnect (flag_url f) APP None,
               Printf (new_logger modePub) ConnectedOk,
               Printf (new_logger modePub) (Publishing (flag_subject f)),
               CallPublish (flag_subject f) (flag_msg f) None,
               CallFlush None,
               Printf (new_logger modePub) (Published (flag_subject f) (flag_msg f)),
               CallClose])"
proof -
  have v: "validate f = None"
    using assms by (rule validate_pub)
  note m = assms(1)
  note t = trace_pub [OF v m] exit_status_main_goroutine
  show ?thesis
  proof (cases "connect_err e")
    case (Some er)
    show ?thesis
      by (simp add: v Some t mg_connect_fails [OF v Some] Printf_def)
  next
    case c: None
    show ?thesis
    proof (cases "publish_err e")
      case (Some er)
      show ?thesis
        by (simp add: v c Some t mg_pub_publish_fails [OF v m c Some] Printf_def)
    next
      case p: None
      show ?thesis
      proof (cases "flush_err e")
        case (Some er)
        show ?thesis
          by (simp add: v c p t mg_pub_flush_fails [OF v m c p Some] Printf_def)
      next
        case None
        show ?thesis
          by (simp add: v c p t mg_pub_ok [OF v m c p None] Printf_def)
      qed
    qed
  qed
qed

theorem valid_publish_run_witness:
  "flag_mode ex_pub = modePub \<and> flag_subject ex_pub \<noteq> [] \<and> flag_msg ex_pub \<noteq> [] \<and>
   validate ex_pub = None \<and>
   filter is_publish (trace ex_env_ok ex_pub) =
     [CallPublish ''greetings'' ''Hello NATS World!'' None] \<and>
   exit_status ex_env_ok ex_pub = Exited 0 \<and>
   trace ex_env_ok ex_pub =
     [Printf (new_logger modePub) (Connecting ''nats://127.0.0.1:4222''),
      CallConnect ''nats://127.0.0.1:4222'' APP None,
      Printf (new_logger modePub) ConnectedOk,
      Printf (new_logger modePub) (Publishing ''greetings''),
      CallPublish ''greetings'' ''Hello NATS World!'' None,
      CallFlush None,
      Printf (new_logger modePub) (Published ''greetings'' ''Hello NATS World!''),
      CallClose]"
proof -
  have m: "flag_mode ex_pub = modePub" and s: "flag_subject ex_pub \<noteq> []"
    and g: "flag_msg ex_pub \<noteq> []"
    by (simp_all add: ex_pub_def modePub_def)
  have c: "connect_err ex_env_ok = None" and p: "publish_err ex_env_ok = None"
    and fl: "flush_err ex_env_ok = None"
    by (simp_all add: ex_env_ok_def)
  have x: "exit_status ex_env_ok ex_pub = Exited 0"
    by (simp add: exit_status_main_goroutine mg_pub_ok [OF validate_pub [OF m s g] m c p fl])
  show ?thesis
    using valid_publish_run [OF m s g, of ex_env_ok] m s g x c p
    by (simp add: ex_pub_def Printf_def)
qed

text \<open>
  The claim as written fails at the publish invocation of the usage text when the server
  cannot be reached: the invocation is valid and publish is never called.
\<close>

theorem no_publish_when_connect_fails:
  "validate ex_pub = None \<and> filter is_publish (trace ex_env_connect_fails ex_pub) = []"
proof -
  have v: "validate ex_pub = None"
    by (simp add: validate_cases ex_pub_def modePub_def)
  have c: "connect_err ex_env_connect_fails = Some ''nats: no servers available for connection''"
    by (simp add: ex_env_connect_fails_def)
  show ?thesis
    by (simp add: v trace_connect_fails [OF v c] mg_connect_fails [OF v c] Printf_def)
qed

section \<open>Subscribe mode\<close>

text \<open>
  Claim C7. In subscribe mode, when the drain call of the shutdown returns an error, the
  error is written as a log line to standard output and nothing else changes: the main
  goroutine goes on with the farewell line, the deferred unsubscribe and the close of the
  connection, and the process ends with code 0. The events below are those of the main
  goroutine, in their order; the lines of the callback may fall anywhere after the
  subscribe call.
\<close>

theorem drain_error_is_logged_not_fatal:
  assumes "flag_mode f = modeSub" and "flag_subject f \<noteq> []"
    and "connect_err e = None" and "subscribe_err e = None"
    and "signal_recv e = Some sg" and "drain_err e = Some er"
  shows "exit_status e f = Exited 0 \<and>
         filter (\<lambda>ev. \<not> is_received ev) (trace e f) =
           [Write StdOut (LogLine ''NATS-BASIC [sub] '' (Connecting (flag_url f))),
            CallConnect (flag_url f) ''NATS-BASIC'' None,
            Write StdOut (LogLine ''NATS-BASIC [sub] '' ConnectedOk),
            Write StdOut (LogLine ''NATS-BASIC [sub] '' (Subscribing (flag_subject f))),
            CallSubscribe (flag_subject f) None,
            CallNotify [SIGINT, SIGTERM],
            Write StdOut (LogLine ''NATS-BASIC [sub] '' (GotSignal sg)),
            CallDrain (Some er),
            Write StdOut (LogLine ''NATS-BASIC [sub] '' (DrainError er)),
            Write StdOut (LogLine ''NATS-BASIC [sub] '' Bye),
            CallUnsubscribe (unsubscribe_err e)] @
           (case unsubscribe_err e of
              Some er' \<Rightarrow> [Write StdOut (LogLine ''NATS-BASIC [sub] '' (UnsubscribeError er'))]
            | None \<Rightarrow> []) @
           [CallClose]"
proof -
  have v: "validate f = None"
    using assms(1,2) by (rule validate_sub)
  note mg = mg_sub_signalled [OF v assms(1) assms(3) assms(4) assms(5)]
  have "filter (\<lambda>ev. \<not> is_received ev) (trace e f) =
      filter (\<lambda>ev. \<not> is_received ev) (fst (main_goroutine e f))"
    by (rule trace_filter) (simp add: callback_is_received)
  then show ?thesis
    by (simp add: exit_status_main_goroutine mg assms(6) Printf_def new_logger_def APP_def
        modeSub_def deferred_unsubscribe_def split: option.splits)
qed

theorem drain_error_is_logged_not_fatal_witness:
  "flag_mode ex_sub = modeSub \<and> flag_subject ex_sub \<noteq> [] \<and>
   connect_err ex_env_drain_fails = None \<and> subscribe_err ex_env_drain_fails = None \<and>
   signal_recv ex_env_drain_fails = Some SIGINT \<and>
   drain_err ex_env_drain_fails = Some ''nats: connection closed'' \<and>
   exit_status ex_env_drain_fails ex_sub = Exited 0 \<and>
   filter (\<lambda>ev. \<not> is_received ev) (trace ex_env_drain_fails ex_sub) =
     [Write StdOut (LogLine ''NATS-BASIC [sub] '' (Connecting ''nats://127.0.0.1:4222'')),
      CallConnect ''nats://127.0.0.1:4222'' ''NATS-BASIC'' None,
      Write StdOut (LogLine ''NATS-BASIC [sub] '' ConnectedOk),
      Write StdOut (LogLine ''NATS-BASIC [sub] '' (Subscribing ''greetings'')),
      CallSubscribe ''greetings'' None,
      CallNotify [SIGINT, SIGTERM],
      Write StdOut (LogLine ''NATS-BASIC [sub] '' (GotSignal SIGINT)),
      CallDrain (Some ''nats: connection closed''),
      Write StdOut (LogLine ''NATS-BASIC [sub] '' (DrainError ''nats: connection closed'')),
      Write StdOut (LogLine ''NATS-BASIC [sub] '' Bye),
      CallUnsubscribe None,
      CallClose]"
proof -
  have h: "flag_mode ex_sub = modeSub" "flag_subject ex_sub \<noteq> []"
    "connect_err ex_env_drain_fails = None" "subscribe_err ex_env_drain_fails = None"
    "signal_recv ex_env_drain_fails = Some SIGINT"
    "drain_err ex_env_drain_fails = Some ''nats: connection closed''"
    by (simp_all add: ex_sub_def ex_env_drain_fails_def ex_env_ok_def modeSub_def)
  have u: "unsubscribe_err ex_env_drain_fails = None"
    "flag_url ex_sub = ''nats://127.0.0.1:4222''" "flag_subject ex_sub = ''greetings''"
    by (simp_all add: ex_sub_def ex_env_drain_fails_def ex_env_ok_def)
  show ?thesis
    using drain_error_is_logged_not_fatal [OF h] h u
    by simp
qed

section \<open>The life cycle in subscribe mode\<close>

lemma states_unsubscribe: "List.map_filter state_after (deferred_unsubscribe e l) = []"
  by (simp add: deferred_unsubscribe_def map_filter_simps Printf_def split: option.splits)

lemma states_append:
  "List.map_filter state_after (xs @ ys) =
   List.map_filter state_after xs @ List.map_filter state_after ys"
  by (simp add: map_filter_def)

lemma lifecycle_trace: "lifecycle (trace e f) = lifecycle (fst (main_goroutine e f))"
  unfolding lifecycle_def
  by (simp add: trace_map_filter callback_no_state)

lemma lifecycle_invalid:
  "validate f = Some d \<Longrightarrow> lifecycle (trace e f) = [Idle]"
  unfolding lifecycle_trace
  by (simp add: mg_invalid lifecycle_def map_filter_simps)

lemma lifecycle_connect_fails:
  "validate f = None \<Longrightarrow> connect_err e = Some er \<Longrightarrow> lifecycle (trace e f) = [Idle]"
  unfolding lifecycle_trace
  by (simp add: mg_connect_fails lifecycle_def map_filter_simps Printf_def)

lemma lifecycle_subscribe_fails:
  "validate f = None \<Longrightarrow> flag_mode f = modeSub \<Longrightarrow> connect_err e = None \<Longrightarrow>
   subscribe_err e = Some er \<Longrightarrow> lifecycle (trace e f) = [Idle, Connected]"
  unfolding lifecycle_trace
  by (simp add: mg_sub_subscribe_fails lifecycle_def map_filter_simps
      Printf_def)

lemma lifecycle_blocks:
  "validate f = None \<Longrightarrow> flag_mode f = modeSub \<Longrightarrow> connect_err e = None \<Longrightarrow>
   subscribe_err e = None \<Longrightarrow> signal_recv e = None \<Longrightarrow>
   lifecycle (trace e f) = [Idle, Connected, Subscribed]"
  unfolding lifecycle_trace
  by (simp add: mg_sub_blocks lifecycle_def map_filter_simps Printf_def)

lemma lifecycle_signalled:
  "validate f = None \<Longrightarrow> flag_mode f = modeSub \<Longrightarrow> connect_err e = None \<Longrightarrow>
   subscribe_err e = None \<Longrightarrow> signal_recv e = Some sg \<Longrightarrow>
   lifecycle (trace e f) = [Idle, Connected, Subscribed, Draining, Closed]"
  unfolding lifecycle_trace
  by (simp add: mg_sub_signalled lifecycle_def map_filter_simps Printf_def
      states_append states_unsubscribe split: option.splits)

lemma lifecycle_sub_cases:
  assumes "flag_mode f = modeSub"
  shows "lifecycle (trace e f) = [Idle] \<or>
         lifecycle (trace e f) = [Idle, Connected] \<or>
         lifecycle (trace e f) = [Idle, Connected, Subscribed] \<or>
         lifecycle (trace e f) = [Idle, Connected, Subscribed, Draining, Closed]"
proof (cases "validate f")
  case (Some d)
  then show ?thesis by (simp add: lifecycle_invalid)
next
  case v: None
  show ?thesis
  proof (cases "connect_err e")
    case (Some er)
    with v show ?thesis by (simp add: lifecycle_connect_fails)
  next
    case c: None
    show ?thesis
    proof (cases "subscribe_err e")
      case (Some er)
      with v c assms show ?thesis by (simp add: lifecycle_subscribe_fails)
    next
      case s: None
      show ?thesis
      proof (cases "signal_recv e")
        case None
        with v c s assms show ?thesis by (simp add: lifecycle_blocks)
      next
        case (Some sg)
        with v c s assms show ?thesis by (simp add: lifecycle_signalled)
      qed
    qed
  qed
qed

text \<open>
  Claim C8, as the code has it. In subscribe mode the states of a run occur in the order
  Idle, Connected, Subscribed, Draining, Closed, each at most once, so no transition
  enters Subscribed again. When the connection attempt fails the run stays in Idle and
  never reaches Closed. When the connection and the subscription are established and a
  signal arrives, the run passes through all five states, reaches Closed exactly once
  and ends with code 0, whether or not drain or unsubscribe report an error. Nothing is
  said here on whether a run whose subscribe call fails reaches Closed.
\<close>

theorem subscribe_mode_lifecycle:
  assumes "flag_mode f = modeSub"
  shows "subseq (lifecycle (trace e f)) [Idle, Connected, Subscribed, Draining, Closed] \<and>
         hd (lifecycle (trace e f)) = Idle \<and>
         count_list (lifecycle (trace e f)) Subscribed \<le> 1 \<and>
         count_list (lifecycle (trace e f)) Closed \<le> 1 \<and>
         (connect_err e \<noteq> None \<longrightarrow> lifecycle (trace e f) = [Idle]) \<and>
         (flag_subject f \<noteq> [] \<and> connect_err e = None \<and> subscribe_err e = None \<and>
          signal_recv e \<noteq> None \<longrightarrow>
            lifecycle (trace e f) = [Idle, Connected, Subscribed, Draining, Closed] \<and>
            count_list (lifecycle (trace e f)) Closed = 1 \<and>
            exit_status e f = Exited 0)"
proof -
  have a: "subseq (lifecycle (trace e f)) [Idle, Connected, Subscribed, Draining, Closed] \<and>
         hd (lifecycle (trace e f)) = Idle \<and>
         count_list (lifecycle (trace e f)) Subscribed \<le> 1 \<and>
         count_list (lifecycle (trace e f)) Closed \<le> 1"
    using lifecycle_sub_cases [OF assms, of e] by auto
  have b: "lifecycle (trace e f) = [Idle, Connected, Subscribed, Draining, Closed] \<and>
           count_list (lifecycle (trace e f)) Closed = 1 \<and> exit_status e f = Exited 0"
    if h: "flag_subject f \<noteq> []" "connect_err e = None" "subscribe_err e = None"
      "signal_recv e \<noteq> None"
  proof -
    have v: "validate f = None"
      using assms h(1) by (rule validate_sub)
    from h(4) obtain sg where sg: "signal_recv e = Some sg" by auto
    show ?thesis
      by (simp add: lifecycle_signalled [OF v assms h(2) h(3) sg] exit_status_main_goroutine
          mg_sub_signalled [OF v assms h(2) h(3) sg])
  qed
  have c: "lifecycle (trace e f) = [Idle]" if h: "connect_err e \<noteq> None"
  proof (cases "validate f")
    case None
    from h obtain er where "connect_err e = Some er" by auto
    with None show ?thesis by (simp add: lifecycle_connect_fails)
  next
    case (Some d)
    then show ?thesis by (simp add: lifecycle_invalid)
  qed
  from a b c show ?thesis by blast
qed

theorem subscribe_mode_lifecycle_witness:
  "flag_mode ex_sub = modeSub \<and> flag_subject ex_sub \<noteq> [] \<and> connect_err ex_env_ok = None \<and>
   subscribe_err ex_env_ok = None \<and> signal_recv ex_env_ok \<noteq> None \<and>
   lifecycle (trace ex_env_ok ex_sub) = [Idle, Connected, Subscribed, Draining, Closed] \<and>
   count_list (lifecycle (trace ex_env_ok ex_sub)) Closed = 1 \<and>
   exit_status ex_env_ok ex_sub = Exited 0"
proof -
  have h: "flag_mode ex_sub = modeSub" "flag_subject ex_sub \<noteq> []"
    "connect_err ex_env_ok = None" "subscribe_err ex_env_ok = None"
    "signal_recv ex_env_ok \<noteq> None"
    by (simp_all add: ex_sub_def ex_env_ok_def modeSub_def)
  from subscribe_mode_lifecycle [OF h(1), of ex_env_ok] h show ?thesis
    by simp
qed

text \<open>
  The claim as written fails at the subscribe invocation of the usage text when the server
  cannot be reached: the run ends with code 1 in state Idle and never reaches Closed.
\<close>

theorem connect_failure_never_reaches_closed:
  "lifecycle (trace ex_env_connect_fails ex_sub) = [Idle] \<and>
   count_list (lifecycle (trace ex_env_connect_fails ex_sub)) Closed = 0 \<and>
   exit_status ex_env_connect_fails ex_sub = Exited 1"
proof -
  have v: "validate ex_sub = None"
    by (simp add: validate_cases ex_sub_def modeSub_def)
  have c: "connect_err ex_env_connect_fails = Some ''nats: no servers available for connection''"
    by (simp add: ex_env_connect_fails_def)
  show ?thesis
    by (simp add: lifecycle_connect_fails [OF v c] exit_status_main_goroutine
        mg_connect_fails [OF v c])
qed

section \<open>Exit codes and diagnostics\<close>

lemma exit_status_cases:
  "exit_status e f = Exited 0 \<or> exit_status e f = Exited 1 \<or> exit_status e f = Blocked"
proof (cases "validate f")
  case (Some d)
  then show ?thesis by (simp add: exit_status_main_goroutine mg_invalid)
next
  case v: None
  show ?thesis
  proof (cases "connect_err e")
    case (Some er)
    with v show ?thesis by (simp add: exit_status_main_goroutine mg_connect_fails)
  next
    case None
    with v show ?thesis
      by (auto simp: exit_status_main_goroutine mg_connected after_def run_deferred_close_def
            dispatch_def publish_def subscribe_def Fatalf_def
          split: option.splits outcome.splits)
  qed
qed

lemma exit_0_iff:
  "exit_status e f = Exited 0 \<longleftrightarrow>
     validate f = None \<and> connect_err e = None \<and>
     (flag_mode f = modePub \<and> publish_err e = None \<and> flush_err e = None \<or>
      flag_mode f = modeSub \<and> subscribe_err e = None \<and> signal_recv e \<noteq> None)"
proof (cases "validate f")
  case (Some d)
  then show ?thesis by (simp add: exit_status_main_goroutine mg_invalid)
next
  case v: None
  show ?thesis
  proof (cases "connect_err e")
    case (Some er)
    with v show ?thesis by (simp add: exit_status_main_goroutine mg_connect_fails)
  next
    case None
    with v validated_mode [OF v] show ?thesis
      by (auto simp: exit_status_main_goroutine mg_connected after_def run_deferred_close_def
            dispatch_def publish_def subscribe_def Fatalf_def modePub_def modeSub_def
          split: option.splits outcome.splits)
  qed
qed

text \<open>
  After validation every line goes through the logger: nothing is written to standard
  error and the usage text is not printed, whatever the scheduler does.
\<close>

lemma quiet_after_validation:
  assumes v: "validate f = None"
    and cb: "\<And>m. \<not> P (callback (new_logger (flag_mode f)) m)"
    and lg: "\<And>x. \<not> P (Printf (new_logger (flag_mode f)) x)"
    and calls: "\<And>u n r. \<not> P (CallConnect u n r)" "\<And>s p r. \<not> P (CallPublish s p r)"
      "\<And>r. \<not> P (CallFlush r)" "\<And>s r. \<not> P (CallSubscribe s r)" "\<And>g. \<not> P (CallNotify g)"
      "\<And>r. \<not> P (CallDrain r)" "\<And>r. \<not> P (CallUnsubscribe r)" "\<not> P CallClose"
  shows "filter P (trace e f) = []"
proof -
  have t: "filter P (trace e f) = filter P (fst (main_goroutine e f))"
    by (rule trace_filter) (rule cb)
  show ?thesis
  proof (cases "connect_err e")
    case (Some er)
    with v show ?thesis by (simp add: t mg_connect_fails lg calls)
  next
    case c: None
    from validated_mode [OF v] show ?thesis
    proof
      assume m: "flag_mode f = modePub"
      show ?thesis
        by (simp add: t mg_connected [OF v c] dispatch_pub [OF m] after_def
            run_deferred_close_def publish_def Fatalf_def lg calls
            split: option.splits outcome.splits)
    next
      assume m: "flag_mode f = modeSub"
      show ?thesis
        by (simp add: t mg_connected [OF v c] dispatch_sub [OF m] after_def
            run_deferred_close_def subscribe_def Fatalf_def deferred_unsubscribe_def lg calls
            split: option.splits outcome.splits)
    qed
  qed
qed

lemma no_stderr_after_validation:
  "validate f = None \<Longrightarrow> filter (writes_to StdErr) (trace e f) = []"
  by (rule quiet_after_validation)
    (simp_all add: callback_def Printf_def new_logger_def)

lemma no_usage_after_validation:
  "validate f = None \<Longrightarrow> filter prints_usage (trace e f) = []"
  by (rule quiet_after_validation)
    (simp_all add: callback_def Printf_def)

text \<open>
  Claim C6, as the code has it, for a command line that \<open>flag.Parse\<close> accepts. The run
  ends with code 0 or code 1 or waits for a signal for ever. It ends with code 0 exactly
  when validation passes, the connection is established and the chosen mode runs to its
  end. A validation failure ends with code 1 after an error line and the usage text on
  standard error. A connection, publish, flush or subscribe failure ends with code 1
  right after its diagnostic, which goes through the logger to standard output; a run
  that passes validation writes nothing to standard error and prints no usage text.
\<close>

theorem exit_codes_and_diagnostics:
  assumes "Parse args = (f, ParseOk)"
  shows
  "(process_exit e args = Exited 0 \<or> process_exit e args = Exited 1 \<or>
    process_exit e args = Blocked) \<and>
   (process_exit e args = Exited 0 \<longleftrightarrow>
      validate f = None \<and> connect_err e = None \<and>
      (flag_mode f = modePub \<and> publish_err e = None \<and> flush_err e = None \<or>
       flag_mode f = modeSub \<and> subscribe_err e = None \<and> signal_recv e \<noteq> None)) \<and>
   (validate f = Some d \<longrightarrow>
      process_exit e args = Exited 1 \<and>
      process_trace e args = [Write StdErr (Diag d), Write StdErr UsageText]) \<and>
   (validate f = None \<longrightarrow>
      filter (writes_to StdErr) (process_trace e args) = [] \<and>
      filter prints_usage (process_trace e args) = []) \<and>
   (validate f = None \<and> connect_err e = Some er \<longrightarrow>
      process_exit e args = Exited 1 \<and>
      last (process_trace e args) =
        Write StdOut (LogLine (''NATS-BASIC ['' @ flag_mode f @ ''] '')
          (FailedConnect (flag_url f) er))) \<and>
   (validate f = None \<and> connect_err e = None \<and> flag_mode f = modePub \<and>
    publish_err e = Some er \<longrightarrow>
      process_exit e args = Exited 1 \<and>
      last (process_trace e args) =
        Write StdOut (LogLine ''NATS-BASIC [pub] '' (FailedPublish er))) \<and>
   (validate f = None \<and> connect_err e = None \<and> flag_mode f = modePub \<and>
    publish_err e = None \<and> flush_err e = Some er \<longrightarrow>
      process_exit e args = Exited 1 \<and>
      last (process_trace e args) =
        Write StdOut (LogLine ''NATS-BASIC [pub] '' (FailedFlush er))) \<and>
   (validate f = None \<and> connect_err e = None \<and> flag_mode f = modeSub \<and>
    subscribe_err e = Some er \<longrightarrow>
      process_exit e args = Exited 1 \<and>
      last (process_trace e args) =
        Write StdOut (LogLine ''NATS-BASIC [sub] '' (FailedSubscribe er)))"
proof -
  from assms have pt: "process_trace e args = trace e f"
    and pe: "process_exit e args = exit_status e f"
    by (simp_all add: process_trace_def process_exit_def main_def trace_def exit_status_def)
  note x = exit_status_main_goroutine
  have a: "validate f = Some d \<longrightarrow>
      exit_status e f = Exited 1 \<and>
      trace e f = [Write StdErr (Diag d), Write StdErr UsageText]"
    by (simp add: x trace_invalid mg_invalid)
  have b: "validate f = None \<and> connect_err e = Some er \<longrightarrow>
      exit_status e f = Exited 1 \<and>
      last (trace e f) =
        Write StdOut (LogLine (''NATS-BASIC ['' @ flag_mode f @ ''] '')
          (FailedConnect (flag_url f) er))"
    by (simp add: x trace_connect_fails mg_connect_fails Printf_def new_logger_def APP_def)
  have c: "validate f = None \<and> connect_err e = None \<and> flag_mode f = modePub \<and>
    publish_err e = Some er \<longrightarrow>
      exit_status e f = Exited 1 \<and>
      last (trace e f) = Write StdOut (LogLine ''NATS-BASIC [pub] '' (FailedPublish er))"
    by (simp add: x trace_pub mg_pub_publish_fails Printf_def new_logger_def APP_def
        modePub_def)
  have d: "validate f = None \<and> connect_err e = None \<and> flag_mode f = modePub \<and>
    publish_err e = None \<and> flush_err e = Some er \<longrightarrow>
      exit_status e f = Exited 1 \<and>
      last (trace e f) = Write StdOut (LogLine ''NATS-BASIC [pub] '' (FailedFlush er))"
    by (simp add: x trace_pub mg_pub_flush_fails Printf_def new_logger_def APP_def
        modePub_def)
  have g: "validate f = None \<and> connect_err e = None \<and> flag_mode f = modeSub \<and>
    subscribe_err e = Some er \<longrightarrow>
      exit_status e f = Exited 1 \<and>
      last (trace e f) = Write StdOut (LogLine ''NATS-BASIC [sub] '' (FailedSubscribe er))"
    by (simp add: x trace_sub_subscribe_fails mg_sub_subscribe_fails Printf_def
        new_logger_def APP_def modeSub_def)
  have n: "validate f = None \<longrightarrow>
      filter (writes_to StdErr) (trace e f) = [] \<and> filter prints_usage (trace e f) = []"
    by (simp add: no_stderr_after_validation no_usage_after_validation)
  from exit_status_cases [of e f] exit_0_iff [of e f] a n b c d g
  show ?thesis unfolding pt pe by blast
qed

theorem exit_codes_and_diagnostics_witness:
  "Parse ex_pub_args = (ex_pub, ParseOk) \<and>
   validate ex_pub = None \<and> connect_err ex_env_publish_fails = None \<and>
   flag_mode ex_pub = modePub \<and>
   publish_err ex_env_publish_fails = Some ''nats: maximum payload exceeded'' \<and>
   process_exit ex_env_publish_fails ex_pub_args = Exited 1 \<and>
   last (process_trace ex_env_publish_fails ex_pub_args) =
     Write StdOut (LogLine ''NATS-BASIC [pub] '' (FailedPublish ''nats: maximum payload exceeded'')) \<and>
   filter (writes_to StdErr) (process_trace ex_env_publish_fails ex_pub_args) = [] \<and>
   filter prints_usage (process_trace ex_env_publish_fails ex_pub_args) = []"
proof -
  have h: "validate ex_pub = None" "connect_err ex_env_publish_fails = None"
    "flag_mode ex_pub = modePub"
    "publish_err ex_env_publish_fails = Some ''nats: maximum payload exceeded''"
    by (simp_all add: validate_cases ex_pub_def ex_env_publish_fails_def ex_env_ok_def
        modePub_def)
  from exit_codes_and_diagnostics
    [OF parse_ex_pub_args, where e = ex_env_publish_fails
       and er = "''nats: maximum payload exceeded''"] h parse_ex_pub_args
  show ?thesis by simp
qed

text \<open>
  The claim as written fails at the publish invocation of the usage text when the server
  cannot be reached: the process ends with code 1, its two log lines are on standard
  output, and nothing is written to standard error.
\<close>

theorem connect_failure_writes_no_stderr:
  "process_exit ex_env_connect_fails ex_pub_args = Exited 1 \<and>
   filter (writes_to StdErr) (process_trace ex_env_connect_fails ex_pub_args) = [] \<and>
   filter (writes_to StdOut) (process_trace ex_env_connect_fails ex_pub_args) =
     [Write StdOut (LogLine ''NATS-BASIC [pub] '' (Connecting ''nats://127.0.0.1:4222'')),
      Write StdOut (LogLine ''NATS-BASIC [pub] ''
        (FailedConnect ''nats://127.0.0.1:4222'' ''nats: no servers available for connection''))]"
proof -
  have v: "validate ex_pub = None"
    by (simp add: validate_cases ex_pub_def modePub_def)
  have c: "connect_err ex_env_connect_fails = Some ''nats: no servers available for connection''"
    by (simp add: ex_env_connect_fails_def)
  have u: "flag_mode ex_pub = ''pub''" "flag_url ex_pub = ''nats://127.0.0.1:4222''"
    by (simp_all add: ex_pub_def)
  have pt: "process_trace ex_env_connect_fails ex_pub_args = trace ex_env_connect_fails ex_pub"
    and pe: "process_exit ex_env_connect_fails ex_pub_args = exit_status ex_env_connect_fails ex_pub"
    by (simp_all add: process_trace_def process_exit_def main_def parse_ex_pub_args
        trace_def exit_status_def)
  show ?thesis
    unfolding pt pe exit_status_main_goroutine trace_connect_fails [OF v c]
      mg_connect_fails [OF v c] u
    by (simp add: Printf_def new_logger_def APP_def)
qed

section \<open>When the connection is closed\<close>

text \<open>
  The close call occurs in exactly the runs that end with code 0, once: every run that
  ends with code 1 or waits for ever has none.
\<close>

lemma close_called_iff_exit_0:
  "filter (\<lambda>ev. ev = CallClose) (trace e f) =
     (if exit_status e f = Exited 0 then [CallClose] else [])"
proof -
  have t: "filter (\<lambda>ev. ev = CallClose) (trace e f) =
      filter (\<lambda>ev. ev = CallClose) (fst (main_goroutine e f))"
    by (rule trace_filter) (rule callback_not_close)
  show ?thesis
  proof (cases "validate f")
    case (Some d)
    then show ?thesis by (simp add: t exit_status_main_goroutine mg_invalid)
  next
    case v: None
    show ?thesis
    proof (cases "connect_err e")
      case (Some er)
      with v show ?thesis
        by (simp add: t exit_status_main_goroutine mg_connect_fails Printf_def)
    next
      case c: None
      from validated_mode [OF v] show ?thesis
      proof
        assume m: "flag_mode f = modePub"
        show ?thesis
          by (simp add: t exit_status_main_goroutine mg_connected [OF v c] dispatch_pub [OF m]
              after_def run_deferred_close_def publish_def Fatalf_def Printf_def
              split: option.splits outcome.splits)
      next
        assume m: "flag_mode f = modeSub"
        show ?thesis
          by (simp add: t exit_status_main_goroutine mg_connected [OF v c] dispatch_sub [OF m]
              after_def run_deferred_close_def subscribe_def Fatalf_def Printf_def
              deferred_unsubscribe_def
              split: option.splits outcome.splits)
      qed
    qed
  qed
qed

end
